theory Spec2Isabelle
  imports Complex_Main
begin

section \<open>Rayleigh lidar utilities (datas/lidar/lidar_utilities.py)\<close>

text \<open>
  The functions of \<^verbatim>\<open>lidar_utilities.py\<close> over the real numbers. A Python float is a
  \<^typ>\<open>real\<close>, a one-dimensional numpy array is a \<^typ>\<open>real list\<close>. Rounding, overflow,
  \<^verbatim>\<open>inf\<close> and \<^verbatim>\<open>nan\<close> of IEEE arithmetic are not part of the model: an elementwise
  numpy division by zero, which yields \<^verbatim>\<open>inf\<close> or \<^verbatim>\<open>nan\<close> with a warning and no
  exception, is the division of the reals here. The wavelength is a Python number (as in
  the module's own call, \<^verbatim>\<open>wavelength = 1064\<close>), so that its divisions and powers
  raise where Python's do; pressure, temperature and altitude are numpy arrays.
  Exceptions are values of \<open>error\<close>.
\<close>

subsection \<open>Exceptions\<close>

datatype error =
    ValueError_broadcast
      \<comment> \<open>numpy: operands could not be broadcast together\<close>
  | ValueError_below_range
      \<comment> \<open>scipy interp1d: a value in x_new is below the interpolation range\<close>
  | ValueError_above_range
      \<comment> \<open>scipy interp1d: a value in x_new is above the interpolation range\<close>
  | ZeroDivisionError
      \<comment> \<open>Python float division by zero, or 0.0 raised to a negative power\<close>

subsection \<open>Library operations used by the source\<close>

text \<open>
  Elementwise binary operation of numpy on two one-dimensional arrays: equal shapes are
  combined position by position, an array of length 1 is broadcast against the other,
  any other pair of shapes raises.
\<close>

definition np_binop :: "(real \<Rightarrow> real \<Rightarrow> real) \<Rightarrow> real list \<Rightarrow> real list \<Rightarrow> error + real list" where
  "np_binop f xs ys =
     (if length xs = length ys then Inr (map2 f xs ys)
      else if length xs = 1 then Inr (map (f (hd xs)) ys)
      else if length ys = 1 then Inr (map (\<lambda>x. f x (hd ys)) xs)
      else Inl ValueError_broadcast)"

text \<open>Division of two Python floats.\<close>

definition py_div :: "real \<Rightarrow> real \<Rightarrow> error + real" where
  "py_div a b = (if b = 0 then Inl ZeroDivisionError else Inr (a / b))"

text \<open>
  \<^verbatim>\<open>base ** exponent\<close> on Python floats with a negative, non-integer exponent: zero raises,
  a negative base gives a complex number (no exception), a positive base a float.
\<close>

datatype pow_result = Real_pow real | Complex_pow

definition py_pow_neg :: "real \<Rightarrow> real \<Rightarrow> error + pow_result" where
  "py_pow_neg b e =
     (if b = 0 then Inl ZeroDivisionError
      else if b < 0 then Inr Complex_pow
      else Inr (Real_pow (b powr e)))"

text \<open>
  \<^verbatim>\<open>interp1d(x, y, kind='linear')\<close> of scipy, called at a scalar. The segment is the one
  that \<^verbatim>\<open>searchsorted\<close> finds, clipped to the table: the first index \<open>hi \<ge> 1\<close> with
  \<open>x_new \<le> x[hi]\<close>, and \<open>lo = hi - 1\<close>. With the default \<^verbatim>\<open>bounds_error\<close> a point outside
  \<open>[x[0], x[-1]]\<close> raises ValueError.
\<close>

fun interp_linear :: "(real \<times> real) list \<Rightarrow> real \<Rightarrow> real" where
  "interp_linear ((x_lo, y_lo) # (x_hi, y_hi) # rest) x_new =
     (if x_new \<le> x_hi \<or> rest = []
      then (y_hi - y_lo) / (x_hi - x_lo) * (x_new - x_lo) + y_lo
      else interp_linear ((x_hi, y_hi) # rest) x_new)"
| "interp_linear [(x_lo, y_lo)] x_new = y_lo"
| "interp_linear [] x_new = 0"

definition interp1d :: "real list \<Rightarrow> real list \<Rightarrow> real \<Rightarrow> error + real" where
  "interp1d xs ys x_new =
     (if x_new < hd xs then Inl ValueError_below_range
      else if last xs < x_new then Inl ValueError_above_range
      else Inr (interp_linear (zip xs ys) x_new))"

subsection \<open>The functions of the module\<close>

text \<open>
  The backscatter profile is a real array, or a complex one when the wavelength is
  negative (Python's power then leaves the reals); the model does not follow the
  complex values.
\<close>

datatype beta_array = Real_array "real list" | Complex_array

definition calc_beta_rayleigh :: "real \<Rightarrow> real list \<Rightarrow> real list \<Rightarrow> bool \<Rightarrow> error + beta_array" where
  "calc_beta_rayleigh wavelength P T nanometers =
     (let wavelength = (if nanometers then wavelength * (1 / 10 ^ 9) else wavelength) in
      case np_binop (/) P T of
        Inl e \<Rightarrow> Inl e
      | Inr ratio \<Rightarrow>
          (case py_pow_neg wavelength (- 4.0117) of
             Inl e \<Rightarrow> Inl e
           | Inr Complex_pow \<Rightarrow> Inr Complex_array
           | Inr (Real_pow p) \<Rightarrow> Inr (Real_array (map (\<lambda>r. 2.938 / 10 ^ 32 * r * p) ratio))))"

definition kB :: real where
  "kB = 1.38064852 / 10 ^ 23"

definition calc_number_density :: "real list \<Rightarrow> real list \<Rightarrow> bool \<Rightarrow> error + real list" where
  "calc_number_density pressure temperature celsius =
     (if celsius
      then np_binop (/) pressure (map (\<lambda>t. kB * t) (map (\<lambda>t. t + 273.15) temperature))
      else np_binop (/) pressure (map (\<lambda>t. kB * t) temperature))"

definition calc_index_refraction :: "real \<Rightarrow> error + real" where
  "calc_index_refraction wavelength =
     (case py_div (10 ^ 6) (wavelength ^ 2) of
        Inl e \<Rightarrow> Inl e
      | Inr q \<Rightarrow>
          (case py_div 5791817 (238.0185 - q) of
             Inl e \<Rightarrow> Inl e
           | Inr a \<Rightarrow>
               (case py_div 167909 (57.362 - q) of
                  Inl e \<Rightarrow> Inl e
                | Inr b \<Rightarrow> Inr (1 + (a + b) * (1 / 10 ^ 8)))))"

definition wavelengths :: "real list" where
  "wavelengths =
     [200, 205, 210, 215, 220,
      225, 230, 240, 250, 260,
      270, 280, 290, 300, 310,
      320, 330, 340, 350, 360,
      370, 380, 390, 400, 450,
      500, 550, 600, 650, 700,
      800, 850, 900, 950, 1000,
      1064]"

definition depolarize :: "real list" where
  "depolarize =
     [0.0454545, 0.0438372, 0.0422133, 0.0411272, 0.0400381,
      0.0389462, 0.0378513, 0.0367534, 0.0356527, 0.0345489,
      0.033996, 0.0328878, 0.0323326, 0.0317766, 0.0317766,
      0.0312199, 0.0306624, 0.0306624, 0.0301042, 0.0301042,
      0.0301042, 0.0295452, 0.0295452, 0.0295452, 0.0289855,
      0.028425, 0.028425, 0.0278638, 0.0278638, 0.0278638,
      0.0273018, 0.0273018, 0.0273018, 0.0273018, 0.0273018,
      0.0273018]"

definition calc_depol_ratio :: "real \<Rightarrow> error + real" where
  "calc_depol_ratio wavelength = interp1d wavelengths depolarize wavelength"

definition nstp :: real where
  "nstp = 2.54691 * 10 ^ 25"

definition calc_rayleigh_scat_cross :: "real \<Rightarrow> error + real" where
  "calc_rayleigh_scat_cross wavelength =
     (case calc_index_refraction wavelength of
        Inl e \<Rightarrow> Inl e
      | Inr n \<Rightarrow>
          (case py_div (10 ^ 36 * 24 * pi ^ 3 * (n ^ 2 - 1) ^ 2)
                       (wavelength ^ 4 * nstp ^ 2 * (n ^ 2 + 2) ^ 2) of
             Inl e \<Rightarrow> Inl e
           | Inr rs \<Rightarrow>
               (case calc_depol_ratio wavelength of
                  Inl e \<Rightarrow> Inl e
                | Inr d \<Rightarrow> Inr (rs * ((6 + 3 * d) / (6 - 7 * d))))))"

definition calc_rayleigh_extinction :: "real \<Rightarrow> real list \<Rightarrow> error + real list" where
  "calc_rayleigh_extinction wavelength numberDensity =
     (case calc_rayleigh_scat_cross wavelength of
        Inl e \<Rightarrow> Inl e
      | Inr rs \<Rightarrow> Inr (map (\<lambda>n. n * rs * 1000) numberDensity))"

text \<open>
  The list comprehension multiplies the whole extinction array by each altitude gap;
  \<^verbatim>\<open>np.sum\<close> adds every entry of every array of the list.
\<close>

definition int_alpha :: "real list \<Rightarrow> real list \<Rightarrow> real list list" where
  "int_alpha rayleigh_extinction altitude_profile =
     map (\<lambda>i. map (\<lambda>a. a * (altitude_profile ! i - altitude_profile ! (i - 1))) rayleigh_extinction)
         [1 ..< length altitude_profile]"

definition np_sum :: "real list list \<Rightarrow> real" where
  "np_sum rows = sum_list (map sum_list rows)"

definition calc_rayleigh_trans :: "real list \<Rightarrow> real list \<Rightarrow> bool \<Rightarrow> real" where
  "calc_rayleigh_trans rayleigh_extinction altitude_profile kilometers =
     (let altitude_profile =
            (if kilometers then map (\<lambda>z. z / 1000) altitude_profile else altitude_profile)
      in exp (- 2 * np_sum (int_alpha rayleigh_extinction altitude_profile)))"

fun scale_beta :: "beta_array \<Rightarrow> real \<Rightarrow> beta_array" where
  "scale_beta (Real_array b) t = Real_array (map (\<lambda>x. x * t) b)"
| "scale_beta Complex_array t = Complex_array"

definition calc_rayleigh_beta_dot_trans ::
  "real \<Rightarrow> real list \<Rightarrow> real list \<Rightarrow> real list \<Rightarrow> bool \<Rightarrow> bool \<Rightarrow> bool \<Rightarrow>
   error + (beta_array \<times> beta_array \<times> real list \<times> real list \<times> real)" where
  "calc_rayleigh_beta_dot_trans wavelength pressure temperature altitude nanometers kilometers celsius =
     (case calc_beta_rayleigh wavelength pressure temperature nanometers of
        Inl e \<Rightarrow> Inl e
      | Inr beta \<Rightarrow>
          (case calc_number_density pressure temperature celsius of
             Inl e \<Rightarrow> Inl e
           | Inr numberDensity \<Rightarrow>
               (case calc_rayleigh_extinction wavelength numberDensity of
                  Inl e \<Rightarrow> Inl e
                | Inr alpha \<Rightarrow>
                    (let rayleigh_trans = calc_rayleigh_trans alpha altitude kilometers;
                         beta_dot_trans = scale_beta beta rayleigh_trans
                     in Inr (beta_dot_trans, beta, numberDensity, alpha, rayleigh_trans)))))"

text \<open>Projections of the result of the pipeline, used to state which outputs agree.\<close>

definition without_beta ::
  "error + (beta_array \<times> beta_array \<times> real list \<times> real list \<times> real) \<Rightarrow>
   error + (real list \<times> real list \<times> real)" where
  "without_beta r =
     map_sum id (\<lambda>(beta_dot_trans, beta, numberDensity, alpha, rayleigh_trans).
                   (numberDensity, alpha, rayleigh_trans)) r"

definition result_beta ::
  "error + (beta_array \<times> beta_array \<times> real list \<times> real list \<times> real) \<Rightarrow> error + beta_array" where
  "result_beta r =
     map_sum id (\<lambda>(beta_dot_trans, beta, numberDensity, alpha, rayleigh_trans). beta) r"

definition result_trans ::
  "error + (beta_array \<times> beta_array \<times> real list \<times> real list \<times> real) \<Rightarrow> error + real" where
  "result_trans r =
     map_sum id (\<lambda>(beta_dot_trans, beta, numberDensity, alpha, rayleigh_trans). rayleigh_trans) r"

section \<open>The transmission integral\<close>

lemma sum_list_scale: "sum_list (map (\<lambda>a. a * d) xs) = sum_list xs * (d::real)"
  by (induction xs) (simp_all add: algebra_simps)

lemma gaps_telescope:
  "sum_list (map (\<lambda>i. (z ! i - z ! (i - 1) :: real)) [1 ..< Suc n]) = z ! n - z ! 0"
  by (induction n) simp_all

lemma np_sum_int_alpha:
  "np_sum (int_alpha a z) = sum_list a * sum_list (map (\<lambda>i. z ! i - z ! (i - 1)) [1 ..< length z])"
  unfolding np_sum_def int_alpha_def
  by (induction "length z" arbitrary: z) (simp_all add: sum_list_scale o_def sum_list_const_mult)

lemma np_sum_int_alpha_span:
  assumes "z \<noteq> []"
  shows "np_sum (int_alpha a z) = sum_list a * (last z - hd z)"
proof -
  obtain n where n: "length z = Suc n" using assms by (cases z) auto
  have "sum_list (map (\<lambda>i. z ! i - z ! (i - 1)) [1 ..< length z]) = z ! n - z ! 0"
    unfolding n by (rule gaps_telescope)
  moreover have "last z = z ! n" using n assms by (simp add: last_conv_nth)
  moreover have "hd z = z ! 0" using assms by (simp add: hd_conv_nth)
  ultimately show ?thesis by (simp add: np_sum_int_alpha)
qed

lemma trans_span:
  "calc_rayleigh_trans a z km =
     (if z = [] then 1
      else exp (- 2 * (sum_list a * ((last z - hd z) / (if km then 1000 else 1)))))"
proof (cases "z = []")
  case True
  then show ?thesis by (simp add: calc_rayleigh_trans_def np_sum_def int_alpha_def)
next
  case False
  then have "map (\<lambda>x. x / 1000) z \<noteq> []" by simp
  then show ?thesis using False
    by (simp add: calc_rayleigh_trans_def np_sum_int_alpha_span last_map hd_map diff_divide_distrib)
qed



text \<open>
  C1. The claim: for extinction \<open>\<alpha>\<close> and altitude \<open>z\<close> of equal length \<open>n \<ge> 2\<close>, with
  \<^verbatim>\<open>kilometers=False\<close>, the result is \<open>exp (- 2 * (\<Sum>i = 1..n-1. \<alpha>[i] * (z[i] - z[i-1])))\<close>,
  each extinction sample paired with its own altitude gap. The source multiplies the whole
  array \<open>\<alpha>\<close> by every gap: at \<open>\<alpha> = [1, 2]\<close>, \<open>z = [0, 1]\<close> it returns \<open>exp (- 6)\<close>, where the
  claimed sum gives \<open>exp (- 4)\<close> (and the pairing with the sample below the gap \<open>exp (- 2)\<close>).
\<close>

theorem calc_rayleigh_trans_pairing_fails:
  "calc_rayleigh_trans [1, 2] [0, 1] False = exp (- 6) \<and>
   calc_rayleigh_trans [1, 2] [0, 1] False \<noteq> exp (- 2 * ([1, 2] ! 1 * ([0, 1] ! 1 - [0, 1] ! 0))) \<and>
   calc_rayleigh_trans [1, 2] [0, 1] False \<noteq> exp (- 2 * ([1, 2] ! 0 * ([0, 1] ! 1 - [0, 1] ! 0)))"
  by (simp add: calc_rayleigh_trans_def np_sum_def int_alpha_def)

text \<open>
  C4. For an extinction array \<open>\<alpha>\<close> of any length and an altitude array \<open>z\<close> of length
  \<open>m \<ge> 2\<close>, with \<^verbatim>\<open>kilometers=True\<close>, \<open>calc_rayleigh_trans\<close> returns
  \<open>exp (- 2 * (\<Sum>j. \<alpha>[j]) * (z[m-1] - z[0]) / 1000)\<close>: the interior altitude samples
  telescope away.
\<close>

theorem calc_rayleigh_trans_telescopes:
  "2 \<le> length z \<Longrightarrow>
   calc_rayleigh_trans a z True
     = exp (- 2 * sum_list a * (z ! (length z - 1) - z ! 0) / 1000)"
proof -
  assume len: "2 \<le> length z"
  then have ne: "z \<noteq> []" by auto
  have "last z = z ! (length z - 1)" using ne by (simp add: last_conv_nth)
  moreover have "hd z = z ! 0" using ne by (simp add: hd_conv_nth)
  ultimately show ?thesis using ne by (simp add: trans_span)
qed

theorem calc_rayleigh_trans_telescopes_witness:
  "2 \<le> length [0, 500, 2000 :: real] \<and>
   calc_rayleigh_trans [1, 2] [0, 500, 2000] True = exp (- 12)"
  using calc_rayleigh_trans_telescopes [of "[0, 500, 2000]" "[1, 2]"] by simp




section \<open>The depolarization table and its interpolation\<close>

lemma depol_table_zip:
  "zip wavelengths depolarize =
     [(200, 0.0454545), (205, 0.0438372), (210, 0.0422133), (215, 0.0411272), (220, 0.0400381),
      (225, 0.0389462), (230, 0.0378513), (240, 0.0367534), (250, 0.0356527), (260, 0.0345489),
      (270, 0.033996), (280, 0.0328878), (290, 0.0323326), (300, 0.0317766), (310, 0.0317766),
      (320, 0.0312199), (330, 0.0306624), (340, 0.0306624), (350, 0.0301042), (360, 0.0301042),
      (370, 0.0301042), (380, 0.0295452), (390, 0.0295452), (400, 0.0295452), (450, 0.0289855),
      (500, 0.028425), (550, 0.028425), (600, 0.0278638), (650, 0.0278638), (700, 0.0278638),
      (800, 0.0273018), (850, 0.0273018), (900, 0.0273018), (950, 0.0273018), (1000, 0.0273018),
      (1064, 0.0273018)]"
  by (simp add: wavelengths_def depolarize_def)

lemma hd_wavelengths: "hd wavelengths = 200"
  by (simp add: wavelengths_def)

lemma last_wavelengths: "last wavelengths = 1064"
  by (simp add: wavelengths_def)

lemma calc_depol_ratio_1064: "calc_depol_ratio 1064 = Inr 0.0273018"
  by (simp add: calc_depol_ratio_def interp1d_def hd_wavelengths last_wavelengths depol_table_zip)

lemma calc_depol_ratio_532: "calc_depol_ratio 532 = Inr 0.028425"
  by (simp add: calc_depol_ratio_def interp1d_def hd_wavelengths last_wavelengths depol_table_zip)

lemma segment_value_bounds:
  fixes x :: real
  assumes "x_lo < x_hi" "x_lo \<le> x" "x \<le> x_hi" "lo \<le> y_lo" "y_lo \<le> hi" "lo \<le> y_hi" "y_hi \<le> hi"
  shows "lo \<le> (y_hi - y_lo) / (x_hi - x_lo) * (x - x_lo) + y_lo \<and>
         (y_hi - y_lo) / (x_hi - x_lo) * (x - x_lo) + y_lo \<le> hi"
proof -
  define t where "t = (x - x_lo) / (x_hi - x_lo)"
  have t0: "0 \<le> t" and t1: "t \<le> 1" using assms by (simp_all add: t_def)
  have eq: "(y_hi - y_lo) / (x_hi - x_lo) * (x - x_lo) + y_lo = (1 - t) * y_lo + t * y_hi"
    by (simp add: t_def algebra_simps diff_divide_distrib add_divide_distrib)
  have "(1 - t) * lo + t * lo \<le> (1 - t) * y_lo + t * y_hi"
    using t0 t1 assms by (intro add_mono mult_left_mono) simp_all
  moreover have "(1 - t) * y_lo + t * y_hi \<le> (1 - t) * hi + t * hi"
    using t0 t1 assms by (intro add_mono mult_left_mono) simp_all
  ultimately show ?thesis unfolding eq by (simp add: algebra_simps)
qed

lemma interp_linear_bounds:
  "sorted_wrt (<) (map fst tbl) \<Longrightarrow> 2 \<le> length tbl \<Longrightarrow>
   fst (hd tbl) \<le> x \<Longrightarrow> x \<le> fst (last tbl) \<Longrightarrow>
   \<forall>p\<in>set tbl. lo \<le> snd p \<and> snd p \<le> hi \<Longrightarrow>
   lo \<le> interp_linear tbl x \<and> interp_linear tbl x \<le> hi"
proof (induction tbl x rule: interp_linear.induct)
  case (1 x_lo y_lo x_hi y_hi rest x_new)
  show ?case
  proof (cases "x_new \<le> x_hi \<or> rest = []")
    case True
    have "x_new \<le> x_hi" using True "1.prems"(4) by auto
    moreover have "x_lo < x_hi" "x_lo \<le> x_new" using "1.prems" by auto
    moreover have "lo \<le> y_lo" "y_lo \<le> hi" "lo \<le> y_hi" "y_hi \<le> hi" using "1.prems"(5) by auto
    ultimately show ?thesis using True segment_value_bounds [of x_lo x_hi x_new lo y_lo hi y_hi]
      by simp
  next
    case False
    then have ne: "rest \<noteq> []" and gt: "x_hi < x_new" by auto
    have "lo \<le> interp_linear ((x_hi, y_hi) # rest) x_new \<and>
          interp_linear ((x_hi, y_hi) # rest) x_new \<le> hi"
    proof (rule "1.IH")
      show "\<not> (x_new \<le> x_hi \<or> rest = [])" using False .
      show "sorted_wrt (<) (map fst ((x_hi, y_hi) # rest))" using "1.prems"(1) by simp
      show "2 \<le> length ((x_hi, y_hi) # rest)" using ne by (cases rest) auto
      show "fst (hd ((x_hi, y_hi) # rest)) \<le> x_new" using gt by simp
      show "x_new \<le> fst (last ((x_hi, y_hi) # rest))" using "1.prems"(4) ne by simp
      show "\<forall>p\<in>set ((x_hi, y_hi) # rest). lo \<le> snd p \<and> snd p \<le> hi" using "1.prems"(5) by simp
    qed
    then show ?thesis using False by simp
  qed
qed simp_all

lemma interp_linear_segment:
  "sorted_wrt (<) (map fst tbl) \<Longrightarrow> Suc i < length tbl \<Longrightarrow>
   fst (tbl ! i) \<le> x \<Longrightarrow> x \<le> fst (tbl ! Suc i) \<Longrightarrow>
   interp_linear tbl x =
     (snd (tbl ! Suc i) - snd (tbl ! i)) / (fst (tbl ! Suc i) - fst (tbl ! i)) * (x - fst (tbl ! i))
       + snd (tbl ! i)"
proof (induction tbl x arbitrary: i rule: interp_linear.induct)
  case (1 x_lo y_lo x_hi y_hi rest x_new)
  let ?tbl = "(x_lo, y_lo) # (x_hi, y_hi) # rest"
  show ?case
  proof (cases i)
    case 0
    then have "x_new \<le> x_hi" using "1.prems"(4) by simp
    then show ?thesis using 0 by simp
  next
    case (Suc j)
    have j: "Suc j < length ((x_hi, y_hi) # rest)" using "1.prems"(2) Suc by simp
    then have ne: "rest \<noteq> []" by auto
    have srt: "sorted_wrt (<) (map fst ((x_hi, y_hi) # rest))" using "1.prems"(1) by simp
    have lo: "fst (((x_hi, y_hi) # rest) ! j) \<le> x_new" using "1.prems"(3) Suc by simp
    have hi: "x_new \<le> fst (((x_hi, y_hi) # rest) ! Suc j)" using "1.prems"(4) Suc by simp
    show ?thesis
    proof (cases "x_new \<le> x_hi")
      case False
      then have "interp_linear ((x_hi, y_hi) # rest) x_new =
          (snd (((x_hi, y_hi) # rest) ! Suc j) - snd (((x_hi, y_hi) # rest) ! j))
            / (fst (((x_hi, y_hi) # rest) ! Suc j) - fst (((x_hi, y_hi) # rest) ! j))
            * (x_new - fst (((x_hi, y_hi) # rest) ! j)) + snd (((x_hi, y_hi) # rest) ! j)"
        using ne by (intro "1.IH" srt j lo hi) simp
      then show ?thesis using False ne Suc by simp
    next
      case True
      have "x_hi \<le> fst (((x_hi, y_hi) # rest) ! j)"
      proof (cases j)
        case 0 then show ?thesis by simp
      next
        case (Suc k)
        have "k < length rest" using j Suc by simp
        then have "rest ! k \<in> set rest" by simp
        then have "x_hi < fst (rest ! k)" using srt by auto
        then show ?thesis using Suc by simp
      qed
      with lo True have xeq: "x_new = x_hi" and jeq: "fst (((x_hi, y_hi) # rest) ! j) = x_hi" by auto
      have j0: "j = 0"
      proof (rule ccontr)
        assume "j \<noteq> 0"
        then obtain k where k: "j = Suc k" by (cases j) auto
        have "k < length rest" using j k by simp
        then have "rest ! k \<in> set rest" by simp
        then have "x_hi < fst (rest ! k)" using srt by auto
        then show False using jeq k by simp
      qed
      have "x_lo < x_hi" using "1.prems"(1) by simp
      then show ?thesis using True Suc j0 xeq by simp
    qed
  qed
qed simp_all

lemma sorted_wavelengths: "sorted_wrt (<) wavelengths"
  by (simp add: wavelengths_def)

lemma length_tables: "length wavelengths = 36" "length depolarize = 36"
  by (simp_all add: wavelengths_def depolarize_def)

lemma depol_table_range: "\<forall>p\<in>set (zip wavelengths depolarize). 0 \<le> snd p \<and> snd p \<le> 1 / 20"
  by (simp add: depol_table_zip)

lemma calc_depol_ratio_range:
  assumes "200 \<le> w" "w \<le> 1064"
  shows "\<exists>d. calc_depol_ratio w = Inr d \<and> 0 \<le> d \<and> d \<le> 1 / 20"
proof -
  have fst_tbl: "map fst (zip wavelengths depolarize) = wavelengths"
    by (simp add: length_tables)
  have "0 \<le> interp_linear (zip wavelengths depolarize) w \<and>
        interp_linear (zip wavelengths depolarize) w \<le> 1 / 20"
  proof (rule interp_linear_bounds)
    show "sorted_wrt (<) (map fst (zip wavelengths depolarize))"
      unfolding fst_tbl by (rule sorted_wavelengths)
    show "2 \<le> length (zip wavelengths depolarize)" by (simp add: length_tables)
    show "fst (hd (zip wavelengths depolarize)) \<le> w" using assms by (simp add: depol_table_zip)
    show "w \<le> fst (last (zip wavelengths depolarize))" using assms by (simp add: depol_table_zip)
    show "\<forall>p\<in>set (zip wavelengths depolarize). 0 \<le> snd p \<and> snd p \<le> 1 / 20"
      by (rule depol_table_range)
  qed
  then show ?thesis using assms
    by (simp add: calc_depol_ratio_def interp1d_def hd_wavelengths last_wavelengths)
qed

lemma py_div_Inr: "b \<noteq> 0 \<Longrightarrow> py_div a b = Inr (a / b)"
  by (simp add: py_div_def)

lemma calc_index_refraction_gt_1:
  assumes "200 \<le> w"
  shows "\<exists>n. calc_index_refraction w = Inr n \<and> 1 < n"
proof -
  have w2: "200 ^ 2 \<le> w ^ 2" using assms by (intro power_mono) simp_all
  have "0 < w" using assms by simp
  then have pos: "0 < w ^ 2" by (rule zero_less_power)
  define q where "q = 10 ^ 6 / w ^ 2"
  have "10 ^ 6 \<le> 25 * w ^ 2" using w2 by simp
  then have q25: "q \<le> 25" unfolding q_def using pos by (simp add: divide_le_eq)
  have a: "0 < 5791817 / (238.0185 - q)" using q25 by simp
  have b: "0 < 167909 / (57.362 - q)" using q25 by simp
  have "calc_index_refraction w =
          Inr (1 + (5791817 / (238.0185 - q) + 167909 / (57.362 - q)) * (1 / 10 ^ 8))"
  proof -
    have 1: "py_div (10 ^ 6) (w ^ 2) = Inr q"
      unfolding q_def using pos by (intro py_div_Inr) simp
    have 2: "py_div 5791817 (238.0185 - q) = Inr (5791817 / (238.0185 - q))"
      using q25 by (intro py_div_Inr) simp
    have 3: "py_div 167909 (57.362 - q) = Inr (167909 / (57.362 - q))"
      using q25 by (intro py_div_Inr) simp
    show ?thesis by (simp only: calc_index_refraction_def 1 2 3 sum.case)
  qed
  moreover have "1 < 1 + (5791817 / (238.0185 - q) + 167909 / (57.362 - q)) * (1 / 10 ^ 8)"
  proof -
    have "0 < 5791817 / (238.0185 - q) + 167909 / (57.362 - q)" using a b by (rule add_pos_pos)
    then have "0 < (5791817 / (238.0185 - q) + 167909 / (57.362 - q)) * (1 / 10 ^ 8)"
      by (intro mult_pos_pos) simp_all
    then show ?thesis by linarith
  qed
  ultimately show ?thesis by blast
qed

lemma calc_rayleigh_scat_cross_pos:
  assumes "200 \<le> w" "w \<le> 1064"
  shows "\<exists>rs. calc_rayleigh_scat_cross w = Inr rs \<and> 0 < rs"
proof -
  obtain n where n: "calc_index_refraction w = Inr n" "1 < n"
    using calc_index_refraction_gt_1 [OF assms(1)] by blast
  obtain d where d: "calc_depol_ratio w = Inr d" "0 \<le> d" "d \<le> 1 / 20"
    using calc_depol_ratio_range [OF assms] by blast
  have "1 < n ^ 2" using n(2) by (simp add: power2_eq_square less_1_mult)
  then have num: "0 < 10 ^ 36 * 24 * pi ^ 3 * (n ^ 2 - 1) ^ 2" by simp
  have "0 < w" using assms by simp
  then have w4: "0 < w ^ 4" by (rule zero_less_power)
  have "0 < nstp" by (simp add: nstp_def)
  then have n2: "0 < nstp ^ 2" by (rule zero_less_power)
  have "0 < n ^ 2 + 2" using \<open>1 < n ^ 2\<close> by simp
  then have "0 < (n ^ 2 + 2) ^ 2" by (rule zero_less_power)
  with w4 n2 have den: "0 < w ^ 4 * nstp ^ 2 * (n ^ 2 + 2) ^ 2"
    by (intro mult_pos_pos)
  have frac: "0 < (6 + 3 * d) / (6 - 7 * d)" using d by simp
  have "calc_rayleigh_scat_cross w =
          Inr (10 ^ 36 * 24 * pi ^ 3 * (n ^ 2 - 1) ^ 2 / (w ^ 4 * nstp ^ 2 * (n ^ 2 + 2) ^ 2)
                 * ((6 + 3 * d) / (6 - 7 * d)))"
  proof -
    have "py_div (10 ^ 36 * 24 * pi ^ 3 * (n ^ 2 - 1) ^ 2) (w ^ 4 * nstp ^ 2 * (n ^ 2 + 2) ^ 2)
            = Inr (10 ^ 36 * 24 * pi ^ 3 * (n ^ 2 - 1) ^ 2 / (w ^ 4 * nstp ^ 2 * (n ^ 2 + 2) ^ 2))"
      using den by (intro py_div_Inr) (rule less_imp_neq [THEN not_sym])
    then show ?thesis by (simp only: calc_rayleigh_scat_cross_def n(1) d(1) sum.case)
  qed
  moreover have "0 < 10 ^ 36 * 24 * pi ^ 3 * (n ^ 2 - 1) ^ 2 / (w ^ 4 * nstp ^ 2 * (n ^ 2 + 2) ^ 2)
                 * ((6 + 3 * d) / (6 - 7 * d))"
    using divide_pos_pos [OF num den] frac by (rule mult_pos_pos)
  ultimately show ?thesis by blast
qed

text \<open>
  C8. \<open>calc_depol_ratio\<close> is linear interpolation of the embedded 36-point table: at
  the tabulated endpoint 1064 nm it returns exactly 0.0273018, at 532 nm the value
  interpolated between the adjacent rows (500 nm, 0.028425) and (550 nm, 0.028425), and
  between any two adjacent rows the value on the straight line through them.
\<close>

theorem calc_depol_ratio_interpolates:
  "length wavelengths = 36 \<and> length depolarize = 36 \<and>
   hd wavelengths = 200 \<and> last wavelengths = 1064 \<and>
   calc_depol_ratio 1064 = Inr 0.0273018 \<and>
   wavelengths ! 25 = 500 \<and> depolarize ! 25 = 0.028425 \<and>
   wavelengths ! 26 = 550 \<and> depolarize ! 26 = 0.028425 \<and>
   calc_depol_ratio 532 = Inr ((0.028425 - 0.028425) / (550 - 500) * (532 - 500) + 0.028425) \<and>
   (\<forall>i w. Suc i < 36 \<and> wavelengths ! i \<le> w \<and> w \<le> wavelengths ! Suc i \<longrightarrow>
      calc_depol_ratio w =
        Inr ((depolarize ! Suc i - depolarize ! i) / (wavelengths ! Suc i - wavelengths ! i)
               * (w - wavelengths ! i) + depolarize ! i))"
proof -
  have tab: "wavelengths ! 25 = 500 \<and> depolarize ! 25 = 0.028425 \<and>
             wavelengths ! 26 = 550 \<and> depolarize ! 26 = 0.028425"
    by (simp add: wavelengths_def depolarize_def)
  have gen: "calc_depol_ratio w =
        Inr ((depolarize ! Suc i - depolarize ! i) / (wavelengths ! Suc i - wavelengths ! i)
               * (w - wavelengths ! i) + depolarize ! i)"
    if h: "Suc i < 36 \<and> wavelengths ! i \<le> w \<and> w \<le> wavelengths ! Suc i" for i w
  proof -
    let ?tbl = "zip wavelengths depolarize"
    have i: "Suc i < length ?tbl" using h by (simp add: length_tables)
    have nth_i: "?tbl ! i = (wavelengths ! i, depolarize ! i)"
      using h by (simp add: length_tables)
    have nth_Suc: "?tbl ! Suc i = (wavelengths ! Suc i, depolarize ! Suc i)"
      using h by (simp add: length_tables)
    have srt: "sorted_wrt (<) (map fst ?tbl)"
      using sorted_wavelengths by (simp add: length_tables)
    have "interp_linear ?tbl w =
        (snd (?tbl ! Suc i) - snd (?tbl ! i)) / (fst (?tbl ! Suc i) - fst (?tbl ! i))
          * (w - fst (?tbl ! i)) + snd (?tbl ! i)"
      using srt i h by (intro interp_linear_segment) (simp_all only: nth_i nth_Suc fst_conv)
    then have val: "interp_linear ?tbl w =
        (depolarize ! Suc i - depolarize ! i) / (wavelengths ! Suc i - wavelengths ! i)
          * (w - wavelengths ! i) + depolarize ! i"
      by (simp only: nth_i nth_Suc fst_conv snd_conv)
    have "wavelengths ! 0 \<le> wavelengths ! i"
      using sorted_wavelengths h
      by (cases i) (simp_all add: sorted_wrt_iff_nth_less length_tables less_imp_le)
    then have lo: "200 \<le> w" using h by (simp add: wavelengths_def)
    have "wavelengths ! Suc i \<le> wavelengths ! 35"
    proof (cases "Suc i = 35")
      case True then show ?thesis by simp
    next
      case False
      then have "Suc i < 35" using h by simp
      then show ?thesis using sorted_wavelengths
        by (simp add: sorted_wrt_iff_nth_less length_tables less_imp_le)
    qed
    then have hi: "w \<le> 1064" using h by (simp add: wavelengths_def)
    show ?thesis using lo hi val
      by (simp add: calc_depol_ratio_def interp1d_def hd_wavelengths last_wavelengths)
  qed
  show ?thesis
    using tab gen calc_depol_ratio_1064 calc_depol_ratio_532 hd_wavelengths last_wavelengths length_tables
    by simp
qed

theorem calc_depol_ratio_interpolates_witness:
  "Suc 25 < 36 \<and> wavelengths ! 25 \<le> 532 \<and> 532 \<le> wavelengths ! Suc 25 \<and>
   calc_depol_ratio 532 = Inr 0.028425"
proof -
  have h: "Suc 25 < 36 \<and> wavelengths ! 25 \<le> 532 \<and> 532 \<le> wavelengths ! Suc 25"
    by (simp add: wavelengths_def)
  have v: "depolarize ! 26 = 0.028425" "depolarize ! 25 = 0.028425"
    by (simp_all add: depolarize_def)
  from calc_depol_ratio_interpolates
  have "\<forall>i w. Suc i < 36 \<and> wavelengths ! i \<le> w \<and> w \<le> wavelengths ! Suc i \<longrightarrow>
      calc_depol_ratio w =
        Inr ((depolarize ! Suc i - depolarize ! i) / (wavelengths ! Suc i - wavelengths ! i)
               * (w - wavelengths ! i) + depolarize ! i)"
    by (elim conjE)
  then have "calc_depol_ratio 532 =
        Inr ((depolarize ! Suc 25 - depolarize ! 25) / (wavelengths ! Suc 25 - wavelengths ! 25)
               * (532 - wavelengths ! 25) + depolarize ! 25)"
    using h by blast
  then show ?thesis using h by (simp add: v)
qed

text \<open>
  C6. For every wavelength outside the tabulated domain [200, 1064] nm,
  \<open>calc_depol_ratio\<close> raises (the ValueError of the interpolator, below or above the
  range) instead of extrapolating, and so no caller that passes this wavelength on
  returns a value: the cross-section, the extinction and the whole pipeline raise.
\<close>

theorem calc_depol_ratio_domain_error:
  "w < 200 \<or> 1064 < w \<Longrightarrow>
   calc_depol_ratio w = Inl (if w < 200 then ValueError_below_range else ValueError_above_range) \<and>
   isl (calc_rayleigh_scat_cross w) \<and>
   isl (calc_rayleigh_extinction w numberDensity) \<and>
   isl (calc_rayleigh_beta_dot_trans w pressure temperature altitude nanometers kilometers celsius)"
proof -
  assume out: "w < 200 \<or> 1064 < w"
  have d: "calc_depol_ratio w =
             Inl (if w < 200 then ValueError_below_range else ValueError_above_range)"
    using out by (auto simp add: calc_depol_ratio_def interp1d_def hd_wavelengths last_wavelengths)
  have s: "isl (calc_rayleigh_scat_cross w)"
    by (simp add: calc_rayleigh_scat_cross_def d split: sum.splits)
  have e: "isl (calc_rayleigh_extinction w nd)" for nd
    using s by (auto simp add: calc_rayleigh_extinction_def split: sum.splits)
  have p: "isl (calc_rayleigh_beta_dot_trans w pressure temperature altitude nanometers kilometers celsius)"
    using e [of "projr (calc_number_density pressure temperature celsius)"]
    by (auto simp add: calc_rayleigh_beta_dot_trans_def split: sum.splits)
  show ?thesis using d s e p by simp
qed

theorem calc_depol_ratio_domain_error_witness:
  "((1500::real) < 200 \<or> (1064::real) < 1500) \<and>
   calc_depol_ratio 1500 = Inl ValueError_above_range \<and>
   calc_depol_ratio 199 = Inl ValueError_below_range \<and>
   isl (calc_rayleigh_beta_dot_trans 1500 [101325] [15] [0, 1000] True True True)"
  using calc_depol_ratio_domain_error [of 1500 "[]" "[101325]" "[15]" "[0, 1000]" True True True]
    calc_depol_ratio_domain_error [of 199]
  by simp

section \<open>Number density and extinction\<close>

lemma np_binop_same_length:
  "length xs = length ys \<Longrightarrow> np_binop f xs ys = Inr (map2 f xs ys)"
  by (simp add: np_binop_def)

lemma calc_number_density_same_length:
  "length P = length T \<Longrightarrow>
   calc_number_density P T c =
     Inr (map2 (\<lambda>p t. p / (kB * (if c then t + 273.15 else t))) P T)"
  by (simp add: calc_number_density_def np_binop_same_length zip_map2 o_def split_def)

text \<open>
  C9. For pressure and temperature profiles of equal length, \<open>calc_number_density\<close>
  returns, sample by sample, \<open>N = P / (kB * T)\<close> with \<open>kB = 1.38064852e-23\<close>, where
  \<open>T\<close> is the input temperature plus 273.15 when \<^verbatim>\<open>celsius=True\<close> and the input
  temperature itself when \<^verbatim>\<open>celsius=False\<close>.
\<close>

theorem calc_number_density_elementwise:
  "length pressure = length temperature \<Longrightarrow>
   \<exists>ND. calc_number_density pressure temperature celsius = Inr ND \<and>
        length ND = length pressure \<and>
        (\<forall>i < length pressure.
           ND ! i = pressure ! i /
             (1.38064852 / 10 ^ 23 * (if celsius then temperature ! i + 273.15 else temperature ! i)))"
  by (simp add: calc_number_density_same_length kB_def)

theorem calc_number_density_elementwise_witness:
  "length [101325, 90000 :: real] = length [15, 7 :: real] \<and>
   calc_number_density [101325, 90000] [15, 7] True
     = Inr [101325 / (1.38064852 / 10 ^ 23 * 288.15), 90000 / (1.38064852 / 10 ^ 23 * 280.15)] \<and>
   calc_number_density [101325, 90000] [288.15, 280.15] False
     = Inr [101325 / (1.38064852 / 10 ^ 23 * 288.15), 90000 / (1.38064852 / 10 ^ 23 * 280.15)]"
  using calc_number_density_elementwise [of "[101325, 90000]" "[15, 7]" True]
    calc_number_density_elementwise [of "[101325, 90000]" "[288.15, 280.15]" False]
  by (simp add: calc_number_density_def np_binop_def kB_def)

text \<open>
  C10. For a profile with constant positive kelvin temperature and a wavelength in the
  tabulated domain, number density and extinction follow the pressure along the profile
  (whose index order is the order of increasing altitude): where the pressure does not
  increase from sample \<open>i\<close> to a later sample \<open>j\<close> neither do they, and where it
  strictly decreases so do they. The sign of the pressure plays no part.
\<close>

theorem density_extinction_decreasing:
  assumes w: "200 \<le> wavelength" "wavelength \<le> 1064"
    and t: "0 < t"
    and T: "temperature = replicate (length pressure) t"
  shows "\<exists>ND alpha.
           calc_number_density pressure temperature False = Inr ND \<and>
           calc_rayleigh_extinction wavelength ND = Inr alpha \<and>
           length ND = length pressure \<and> length alpha = length pressure \<and>
           (\<forall>i j. i < j \<and> j < length pressure \<and> pressure ! j \<le> pressure ! i \<longrightarrow>
                    ND ! j \<le> ND ! i \<and> alpha ! j \<le> alpha ! i) \<and>
           (\<forall>i j. i < j \<and> j < length pressure \<and> pressure ! j < pressure ! i \<longrightarrow>
                    ND ! j < ND ! i \<and> alpha ! j < alpha ! i)"
proof -
  obtain rs where rs: "calc_rayleigh_scat_cross wavelength = Inr rs" "0 < rs"
    using calc_rayleigh_scat_cross_pos [OF w] by blast
  define ND where "ND = map (\<lambda>p. p / (kB * t)) pressure"
  define alpha where "alpha = map (\<lambda>n. n * rs * 1000) ND"
  have kt: "0 < kB * t" using t by (simp add: kB_def)
  have nd: "calc_number_density pressure temperature False = Inr ND"
    unfolding ND_def T
    by (simp add: calc_number_density_same_length map2_map_map zip_replicate2 map_zip_map2)
  have al: "calc_rayleigh_extinction wavelength ND = Inr alpha"
    by (simp add: calc_rayleigh_extinction_def rs alpha_def)
  have len: "length ND = length pressure" by (simp add: ND_def)
  have ND_nth: "ND ! k = pressure ! k / (kB * t)" if "k < length pressure" for k
    using that by (simp add: ND_def)
  have alpha_nth: "alpha ! k = ND ! k * (rs * 1000)" if "k < length pressure" for k
    using that len by (simp add: alpha_def)
  have c: "0 < rs * 1000" using rs(2) by simp
  have le: "ND ! j \<le> ND ! i \<and> alpha ! j \<le> alpha ! i"
    if h: "i < j \<and> j < length pressure \<and> pressure ! j \<le> pressure ! i" for i j
  proof -
    have i: "i < length pressure" and j: "j < length pressure" using h by simp_all
    have "pressure ! j / (kB * t) \<le> pressure ! i / (kB * t)"
      using h kt by (intro divide_right_mono) simp_all
    then have 1: "ND ! j \<le> ND ! i" by (simp only: ND_nth [OF i] ND_nth [OF j])
    then have "ND ! j * (rs * 1000) \<le> ND ! i * (rs * 1000)"
      using c by (intro mult_right_mono) simp_all
    then show ?thesis using 1 by (simp only: alpha_nth [OF i] alpha_nth [OF j])
  qed
  have less: "ND ! j < ND ! i \<and> alpha ! j < alpha ! i"
    if h: "i < j \<and> j < length pressure \<and> pressure ! j < pressure ! i" for i j
  proof -
    have i: "i < length pressure" and j: "j < length pressure" using h by simp_all
    have "pressure ! j / (kB * t) < pressure ! i / (kB * t)"
      using h kt by (intro divide_strict_right_mono) simp_all
    then have 1: "ND ! j < ND ! i" by (simp only: ND_nth [OF i] ND_nth [OF j])
    then have "ND ! j * (rs * 1000) < ND ! i * (rs * 1000)"
      using c by (intro mult_strict_right_mono)
    then show ?thesis using 1 by (simp only: alpha_nth [OF i] alpha_nth [OF j])
  qed
  have len2: "length alpha = length pressure" by (simp add: alpha_def ND_def)
  show ?thesis
    using nd al len len2 le less by blast
qed

theorem density_extinction_decreasing_witness:
  "(200::real) \<le> 532 \<and> (532::real) \<le> 1064 \<and> (0::real) < 250 \<and>
   [250, 250 :: real] = replicate (length [1000, 900 :: real]) 250 \<and>
   (0::nat) < 1 \<and> 1 < length [1000, 900 :: real] \<and> [1000, 900 :: real] ! 1 < [1000, 900] ! 0 \<and>
   (\<exists>ND alpha. calc_number_density [1000, 900] [250, 250] False = Inr ND \<and>
      calc_rayleigh_extinction 532 ND = Inr alpha \<and> ND ! 1 < ND ! 0 \<and> alpha ! 1 < alpha ! 0)"
proof -
  have T: "[250, 250 :: real] = replicate (length [1000, 900 :: real]) 250"
    by (simp add: numeral_2_eq_2)
  have h: "(0::nat) < 1 \<and> 1 < length [1000, 900 :: real] \<and> [1000, 900 :: real] ! 1 < [1000, 900] ! 0"
    by simp
  have w: "(200::real) \<le> 532" "(532::real) \<le> 1064" "(0::real) < 250"
    by simp_all
  from density_extinction_decreasing [OF w T]
  obtain ND alpha where r:
    "calc_number_density [1000, 900] [250, 250] False = Inr ND"
    "calc_rayleigh_extinction 532 ND = Inr alpha"
    "\<forall>i j. i < j \<and> j < length [1000, 900 :: real] \<and> [1000, 900 :: real] ! j < [1000, 900] ! i \<longrightarrow>
             ND ! j < ND ! i \<and> alpha ! j < alpha ! i"
    by blast
  from r(3) h have lt: "ND ! 1 < ND ! 0 \<and> alpha ! 1 < alpha ! 0" by blast
  have "\<exists>ND alpha. calc_number_density [1000, 900] [250, 250] False = Inr ND \<and>
      calc_rayleigh_extinction 532 ND = Inr alpha \<and> ND ! 1 < ND ! 0 \<and> alpha ! 1 < alpha ! 0"
    using r(1,2) lt by blast
  moreover have "(0::nat) < 1" "1 < length [1000, 900 :: real]"
    "[1000, 900 :: real] ! 1 < [1000, 900] ! 0"
    by simp_all
  ultimately show ?thesis using w T by (intro conjI)
qed

section \<open>The pipeline and its unit flags\<close>

lemma np_binop_isl:
  "isl (np_binop f xs ys) \<longleftrightarrow> length xs \<noteq> length ys \<and> length xs \<noteq> 1 \<and> length ys \<noteq> 1"
  by (simp add: np_binop_def)

lemma np_binop_mismatch:
  "length xs \<noteq> length ys \<Longrightarrow> length xs \<noteq> 1 \<Longrightarrow> length ys \<noteq> 1 \<Longrightarrow>
   np_binop f xs ys = Inl ValueError_broadcast"
  by (simp add: np_binop_def)

lemma calc_beta_rayleigh_pos:
  assumes "0 < w"
  shows "calc_beta_rayleigh w P T nm =
     (case np_binop (/) P T of
        Inl e \<Rightarrow> Inl e
      | Inr ratio \<Rightarrow>
          Inr (Real_array (map (\<lambda>r. 2.938 / 10 ^ 32 * r *
                 ((if nm then w * (1 / 10 ^ 9) else w) powr (- 4.0117))) ratio)))"
proof -
  show ?thesis using assms
    by (cases nm) (simp_all add: calc_beta_rayleigh_def py_pow_neg_def split: sum.splits)
qed

lemma calc_number_density_isl:
  "isl (calc_number_density P T c) \<longleftrightarrow> length P \<noteq> length T \<and> length P \<noteq> 1 \<and> length T \<noteq> 1"
  by (simp add: calc_number_density_def np_binop_isl)

lemma pipeline_returns:
  assumes w: "200 \<le> w" "w \<le> 1064"
    and len: "length P = length T \<or> length P = 1 \<or> length T = 1"
  shows "\<not> isl (calc_rayleigh_beta_dot_trans w P T z nm km c)"
proof -
  obtain rs where rs: "calc_rayleigh_scat_cross w = Inr rs"
    using calc_rayleigh_scat_cross_pos [OF w] by blast
  have "0 < w" using w by simp
  note beta = calc_beta_rayleigh_pos [OF this]
  obtain ratio where ratio: "np_binop (/) P T = Inr ratio"
    using len np_binop_isl [of "(/)" P T] by (cases "np_binop (/) P T") auto
  obtain ND where ND: "calc_number_density P T c = Inr ND"
    using len calc_number_density_isl [of P T c] by (cases "calc_number_density P T c") auto
  show ?thesis
    by (simp add: calc_rayleigh_beta_dot_trans_def beta ratio ND calc_rayleigh_extinction_def rs
        Let_def)
qed

lemma pipeline_empty:
  assumes w: "200 \<le> w" "w \<le> 1064"
  shows "calc_rayleigh_beta_dot_trans w [] [] [] nm km c
           = Inr (Real_array [], Real_array [], [], [], 1)"
proof -
  obtain rs where rs: "calc_rayleigh_scat_cross w = Inr rs"
    using calc_rayleigh_scat_cross_pos [OF w] by blast
  have "0 < w" using w by simp
  note beta = calc_beta_rayleigh_pos [OF this]
  show ?thesis
    by (simp add: calc_rayleigh_beta_dot_trans_def beta calc_number_density_def np_binop_def
        calc_rayleigh_extinction_def rs trans_span)
qed

lemma pipeline_mismatch:
  assumes "length P \<noteq> length T" "length P \<noteq> 1" "length T \<noteq> 1"
  shows "calc_rayleigh_beta_dot_trans w P T z nm km c = Inl ValueError_broadcast"
  using assms
  by (simp add: calc_rayleigh_beta_dot_trans_def calc_beta_rayleigh_def np_binop_mismatch)

text \<open>
  C5, as claimed, fails: the pipeline checks no shape. An empty profile returns empty
  arrays and transmission 1; an altitude array of another length than pressure and
  temperature, and a pressure array of length 1 against three temperatures, return
  values as well.
\<close>

theorem pipeline_shape_unchecked:
  "calc_rayleigh_beta_dot_trans 1064 [] [] [] True True True
     = Inr (Real_array [], Real_array [], [], [], 1) \<and>
   \<not> isl (calc_rayleigh_beta_dot_trans 1064 [101325, 90000] [15, 7] [0] True True True) \<and>
   \<not> isl (calc_rayleigh_beta_dot_trans 1064 [101325] [15, 7, 0] [0, 1000] True True True)"
  using pipeline_empty [of 1064 True True True]
    pipeline_returns [of 1064 "[101325, 90000]" "[15, 7]" "[0]" True True True]
    pipeline_returns [of 1064 "[101325]" "[15, 7, 0]" "[0, 1000]" True True True]
  by simp

text \<open>
  C5, amended. For a wavelength in the tabulated domain, the empty profile makes
  \<open>calc_rayleigh_beta_dot_trans\<close> return empty arrays and transmission 1. Pressure and
  temperature arrays of different lengths, neither of them 1, make it raise the
  broadcasting error of the array library at its first operation; arrays of equal length,
  or one of them of length 1, make it return, whatever the length of the altitude array.
\<close>

theorem pipeline_shape_behaviour:
  "(200 \<le> w \<and> w \<le> 1064 \<longrightarrow>
      calc_rayleigh_beta_dot_trans w [] [] [] nm km c
        = Inr (Real_array [], Real_array [], [], [], 1)) \<and>
   (length P \<noteq> length T \<and> length P \<noteq> 1 \<and> length T \<noteq> 1 \<longrightarrow>
      calc_rayleigh_beta_dot_trans w P T z nm km c = Inl ValueError_broadcast) \<and>
   (200 \<le> w \<and> w \<le> 1064 \<and> (length P = length T \<or> length P = 1 \<or> length T = 1) \<longrightarrow>
      \<not> isl (calc_rayleigh_beta_dot_trans w P T z nm km c))"
  using pipeline_empty [of w nm km c] pipeline_mismatch [of P T w z nm km c]
    pipeline_returns [of w P T z nm km c]
  by blast

theorem pipeline_shape_behaviour_witness:
  "(200::real) \<le> 532 \<and> (532::real) \<le> 1064 \<and>
   calc_rayleigh_beta_dot_trans 532 [] [] [] True True True
     = Inr (Real_array [], Real_array [], [], [], 1) \<and>
   length [101325, 90000, 80000 :: real] \<noteq> length [15, 7 :: real] \<and>
   length [101325, 90000, 80000 :: real] \<noteq> 1 \<and> length [15, 7 :: real] \<noteq> 1 \<and>
   calc_rayleigh_beta_dot_trans 532 [101325, 90000, 80000] [15, 7] [0, 1000] True True True
     = Inl ValueError_broadcast \<and>
   length [101325, 90000 :: real] = length [15, 7 :: real] \<and>
   \<not> isl (calc_rayleigh_beta_dot_trans 532 [101325, 90000] [15, 7] [0] True True True)"
  using pipeline_shape_behaviour [of 532 True True True "[101325, 90000, 80000]" "[15, 7]" "[0, 1000]"]
    pipeline_shape_behaviour [of 532 True True True "[101325, 90000]" "[15, 7]" "[0]"]
  by simp

lemma calc_index_refraction_metres:
  "\<exists>n. calc_index_refraction (1064 / 10 ^ 9) = Inr n"
proof -
  define q :: real where "q = 10 ^ 6 / (1064 / 10 ^ 9) ^ 2"
  have q: "1000 < q" unfolding q_def by (simp add: power2_eq_square)
  have 1: "py_div (10 ^ 6) ((1064 / 10 ^ 9) ^ 2) = Inr q"
    unfolding q_def by (intro py_div_Inr) simp
  have 2: "py_div 5791817 (238.0185 - q) = Inr (5791817 / (238.0185 - q))"
    using q by (intro py_div_Inr) simp
  have 3: "py_div 167909 (57.362 - q) = Inr (167909 / (57.362 - q))"
    using q by (intro py_div_Inr) simp
  show ?thesis by (simp only: calc_index_refraction_def 1 2 3 sum.case) blast
qed

lemma calc_rayleigh_scat_cross_metres:
  "calc_rayleigh_scat_cross (1064 / 10 ^ 9) = Inl ValueError_below_range"
proof -
  obtain n where n: "calc_index_refraction (1064 / 10 ^ 9) = Inr n"
    using calc_index_refraction_metres by blast
  have "0 < n ^ 2 + 2" by (rule add_nonneg_pos) simp_all
  then have "0 < (n ^ 2 + 2) ^ 2" by (rule zero_less_power)
  moreover have "0 < nstp ^ 2" by (simp add: nstp_def)
  moreover have "(0::real) < (1064 / 10 ^ 9) ^ 4" by simp
  ultimately have "0 < (1064 / 10 ^ 9) ^ 4 * nstp ^ 2 * (n ^ 2 + 2) ^ 2"
    by (intro mult_pos_pos)
  then have d: "py_div (10 ^ 36 * 24 * pi ^ 3 * (n ^ 2 - 1) ^ 2)
                  ((1064 / 10 ^ 9) ^ 4 * nstp ^ 2 * (n ^ 2 + 2) ^ 2)
                = Inr (10 ^ 36 * 24 * pi ^ 3 * (n ^ 2 - 1) ^ 2 /
                        ((1064 / 10 ^ 9) ^ 4 * nstp ^ 2 * (n ^ 2 + 2) ^ 2))"
    by (intro py_div_Inr) (rule less_imp_neq [THEN not_sym])
  have "calc_depol_ratio (1064 / 10 ^ 9) = Inl ValueError_below_range"
    by (simp add: calc_depol_ratio_def interp1d_def hd_wavelengths)
  then show ?thesis by (simp only: calc_rayleigh_scat_cross_def n d sum.case)
qed

lemma pipeline_isl_of_scat_cross:
  "calc_rayleigh_scat_cross w = Inl e \<Longrightarrow> isl (calc_rayleigh_beta_dot_trans w P T z nm km c)"
  by (simp add: calc_rayleigh_beta_dot_trans_def calc_rayleigh_extinction_def split: sum.splits)

lemma pipeline_error_of_scat_cross:
  assumes "0 < w" "calc_rayleigh_scat_cross w = Inl e"
    and len: "length P = length T \<or> length P = 1 \<or> length T = 1"
  shows "calc_rayleigh_beta_dot_trans w P T z nm km c = Inl e"
proof -
  note beta = calc_beta_rayleigh_pos [OF assms(1)]
  obtain ratio where ratio: "np_binop (/) P T = Inr ratio"
    using len np_binop_isl [of "(/)" P T] by (cases "np_binop (/) P T") auto
  obtain ND where ND: "calc_number_density P T c = Inr ND"
    using len calc_number_density_isl [of P T c] by (cases "calc_number_density P T c") auto
  show ?thesis
    by (simp add: calc_rayleigh_beta_dot_trans_def beta ratio ND calc_rayleigh_extinction_def
        assms(2))
qed

text \<open>
  C2. The claim: the wavelength in nanometres with \<^verbatim>\<open>nanometers=True\<close> and the same
  wavelength in metres with \<^verbatim>\<open>nanometers=False\<close> give the same five outputs. The flag
  reaches the backscatter formula only; the extinction stage reads the raw number as
  nanometres. At 1064 nm given as 1.064e-6 m the call raises for every profile (here the
  interpolator's below-range error), where the call in nanometres returns.
\<close>

theorem nanometers_flag_skips_extinction:
  "isl (calc_rayleigh_beta_dot_trans (1064 / 10 ^ 9) pressure temperature altitude False
          kilometers celsius) \<and>
   calc_rayleigh_beta_dot_trans (1064 / 10 ^ 9) [101325] [288.15] [0, 1000] False True False
     = Inl ValueError_below_range \<and>
   \<not> isl (calc_rayleigh_beta_dot_trans 1064 [101325] [288.15] [0, 1000] True True False)"
proof (intro conjI)
  show "isl (calc_rayleigh_beta_dot_trans (1064 / 10 ^ 9) pressure temperature altitude False
          kilometers celsius)"
    by (rule pipeline_isl_of_scat_cross [OF calc_rayleigh_scat_cross_metres])
  have pos: "(0::real) < 1064 / 10 ^ 9" by simp
  show "calc_rayleigh_beta_dot_trans (1064 / 10 ^ 9) [101325] [288.15] [0, 1000] False True False
     = Inl ValueError_below_range"
    by (rule pipeline_error_of_scat_cross [OF pos calc_rayleigh_scat_cross_metres]) simp
  show "\<not> isl (calc_rayleigh_beta_dot_trans 1064 [101325] [288.15] [0, 1000] True True False)"
    by (rule pipeline_returns) simp_all
qed

lemma trans_km_vs_metres:
  "0 < a \<Longrightarrow> calc_rayleigh_trans [a] [0, 1] True \<noteq> calc_rayleigh_trans [a] [0 * 1000, 1 * 1000] False"
  by (simp add: trans_span)

text \<open>
  C3, as claimed, fails at pressure 101325, temperature 15 degrees Celsius, altitude
  \<open>[0, 1]\<close>, wavelength 1064 nm: the backscatter with \<^verbatim>\<open>celsius=True\<close> is not the one of
  the kelvin temperature 288.15, and the transmission with \<^verbatim>\<open>kilometers=True\<close> is not
  the one of the altitude multiplied by 1000.
\<close>

theorem unit_normalization_not_uniform:
  "result_beta (calc_rayleigh_beta_dot_trans 1064 [101325] [15] [0, 1] True True True)
     \<noteq> result_beta (calc_rayleigh_beta_dot_trans 1064 [101325] [15 + 273.15] [0, 1] True True False) \<and>
   result_trans (calc_rayleigh_beta_dot_trans 1064 [101325] [15] [0, 1] True True True)
     \<noteq> result_trans (calc_rayleigh_beta_dot_trans 1064 [101325] [15] [0 * 1000, 1 * 1000] True False True)"
proof -
  have w: "(200::real) \<le> 1064" "(1064::real) \<le> 1064" by simp_all
  obtain rs where rs: "calc_rayleigh_scat_cross 1064 = Inr rs" "0 < rs"
    using calc_rayleigh_scat_cross_pos [OF w] by blast
  have "(0::real) < 1064" by simp
  note beta = calc_beta_rayleigh_pos [OF this]
  define p :: real where "p = (1064 * (1 / 10 ^ 9)) powr (- 4.0117)"
  have p: "0 < p" by (simp add: p_def)
  define a where "a = 101325 / (kB * (15 + 273.15)) * rs * 1000"
  have a: "0 < a" using rs(2) by (simp add: a_def kB_def)
  have r1: "calc_rayleigh_beta_dot_trans 1064 [101325] [15] z True km True =
      Inr (Real_array [2.938 / 10 ^ 32 * (101325 / 15) * p * calc_rayleigh_trans [a] z km],
           Real_array [2.938 / 10 ^ 32 * (101325 / 15) * p],
           [101325 / (kB * (15 + 273.15))], [a], calc_rayleigh_trans [a] z km)" for z km
    unfolding p_def a_def
    by (simp add: calc_rayleigh_beta_dot_trans_def beta np_binop_def calc_number_density_def
        calc_rayleigh_extinction_def rs(1) Let_def)
  have r2: "calc_rayleigh_beta_dot_trans 1064 [101325] [15 + 273.15] z True km False =
      Inr (Real_array [2.938 / 10 ^ 32 * (101325 / (15 + 273.15)) * p * calc_rayleigh_trans [a] z km],
           Real_array [2.938 / 10 ^ 32 * (101325 / (15 + 273.15)) * p],
           [101325 / (kB * (15 + 273.15))], [a], calc_rayleigh_trans [a] z km)" for z km
    unfolding p_def a_def
    by (simp add: calc_rayleigh_beta_dot_trans_def beta np_binop_def calc_number_density_def
        calc_rayleigh_extinction_def rs(1) Let_def)
  have b: "2.938 / 10 ^ 32 * (101325 / 15) * p \<noteq> 2.938 / 10 ^ 32 * (101325 / (15 + 273.15)) * p"
    using p by simp
  have t: "calc_rayleigh_trans [a] [0, 1] True \<noteq> calc_rayleigh_trans [a] [0 * 1000, 1 * 1000] False"
    using a by (rule trans_km_vs_metres)
  show ?thesis
    unfolding r1 r2 result_beta_def result_trans_def using b t by simp
qed

lemma trans_kilometers_flag:
  "calc_rayleigh_trans a z True = calc_rayleigh_trans a (map (\<lambda>z. z / 1000) z) False"
  by (simp add: calc_rayleigh_trans_def)

text \<open>
  C3, amended. With \<^verbatim>\<open>celsius=True\<close> the number density, and the extinction and
  transmission computed from it, are those of the kelvin temperature (input + 273.15);
  with \<^verbatim>\<open>kilometers=True\<close> every output is the one of the altitude divided by 1000
  (metres to kilometres, the unit of the extinction coefficient). Nothing is said of
  the temperature of the backscatter stage.
\<close>

theorem unit_normalization_by_stage:
  "without_beta (calc_rayleigh_beta_dot_trans wavelength pressure temperature altitude
                   nanometers kilometers True)
     = without_beta (calc_rayleigh_beta_dot_trans wavelength pressure
                       (map (\<lambda>t. t + 273.15) temperature) altitude nanometers kilometers False) \<and>
   calc_rayleigh_beta_dot_trans wavelength pressure temperature altitude nanometers True celsius
     = calc_rayleigh_beta_dot_trans wavelength pressure temperature
         (map (\<lambda>z. z / 1000) altitude) nanometers False celsius"
proof
  have nd: "calc_number_density pressure temperature True
              = calc_number_density pressure (map (\<lambda>t. t + 273.15) temperature) False"
    by (simp add: calc_number_density_def)
  have isl_beta: "calc_beta_rayleigh wavelength pressure temperature nanometers = Inl e \<longleftrightarrow>
        calc_beta_rayleigh wavelength pressure (map (\<lambda>t. t + 273.15) temperature) nanometers = Inl e"
    for e
    by (auto simp add: calc_beta_rayleigh_def np_binop_def Let_def
        split: sum.splits pow_result.splits if_splits)
  show "without_beta (calc_rayleigh_beta_dot_trans wavelength pressure temperature altitude
                   nanometers kilometers True)
     = without_beta (calc_rayleigh_beta_dot_trans wavelength pressure
                       (map (\<lambda>t. t + 273.15) temperature) altitude nanometers kilometers False)"
  proof (cases "calc_beta_rayleigh wavelength pressure temperature nanometers")
    case (Inl e)
    then show ?thesis using isl_beta [of e]
      by (simp add: calc_rayleigh_beta_dot_trans_def without_beta_def)
  next
    case (Inr b)
    then obtain b' where
      "calc_beta_rayleigh wavelength pressure (map (\<lambda>t. t + 273.15) temperature) nanometers = Inr b'"
      using isl_beta
      by (cases "calc_beta_rayleigh wavelength pressure (map (\<lambda>t. t + 273.15) temperature) nanometers")
         auto
    then show ?thesis using Inr
      by (simp add: calc_rayleigh_beta_dot_trans_def without_beta_def nd Let_def
          split: sum.splits)
  qed
  show "calc_rayleigh_beta_dot_trans wavelength pressure temperature altitude nanometers True celsius
     = calc_rayleigh_beta_dot_trans wavelength pressure temperature
         (map (\<lambda>z. z / 1000) altitude) nanometers False celsius"
    by (simp only: calc_rayleigh_beta_dot_trans_def trans_kilometers_flag)
qed

end
